theory Spec2Isabelle
  imports Main "HOL-Library.Char_ord" "HOL-Library.List_Lexorder"
begin

section \<open>Data model of the OIDC upstream watcher\<close>

text \<open>
  Embedding of \<^verbatim>\<open>internal/controller/supervisorconfig/upstreamwatcher/upstreamwatcher.go\<close>.
  Go strings are byte strings (\<^typ>\<open>string\<close>), compared bytewise and lexicographically,
  which is the order of \<^verbatim>\<open>Char_ord\<close> and \<^verbatim>\<open>List_Lexorder\<close>. A \<^verbatim>\<open>time.Time\<close> and a
  \<^verbatim>\<open>time.Duration\<close> are integers counting nanoseconds.
\<close>

type_synonym time = int

definition minute :: int where
  "minute = 60 * 1000000000"

definition oidcClientSecretType :: string where
  "oidcClientSecretType = ''secrets.pinniped.dev/oidc-client''"

definition clientIDDataKey :: string where
  "clientIDDataKey = ''clientID''"

definition clientSecretDataKey :: string where
  "clientSecretDataKey = ''clientSecret''"

definition validatorCacheTTL :: int where
  "validatorCacheTTL = 15 * minute"

definition typeClientCredsValid :: string where
  "typeClientCredsValid = ''ClientCredentialsValid''"

definition typeOIDCDiscoverySucceeded :: string where
  "typeOIDCDiscoverySucceeded = ''OIDCDiscoverySucceeded''"

definition reasonNotFound :: string where
  "reasonNotFound = ''SecretNotFound''"

definition reasonWrongType :: string where
  "reasonWrongType = ''SecretWrongType''"

definition reasonMissingKeys :: string where
  "reasonMissingKeys = ''SecretMissingKeys''"

definition reasonSuccess :: string where
  "reasonSuccess = ''Success''"

definition reasonUnreachable :: string where
  "reasonUnreachable = ''Unreachable''"

definition reasonInvalidResponse :: string where
  "reasonInvalidResponse = ''InvalidResponse''"

text \<open>\<^verbatim>\<open>v1alpha1.ConditionStatus\<close> and \<^verbatim>\<open>v1alpha1.UpstreamOIDCProviderPhase\<close> are string types.\<close>

definition ConditionTrue :: string where
  "ConditionTrue = ''True''"

definition ConditionFalse :: string where
  "ConditionFalse = ''False''"

definition ConditionUnknown :: string where
  "ConditionUnknown = ''Unknown''"

definition PhaseReady :: string where
  "PhaseReady = ''Ready''"

definition PhaseError :: string where
  "PhaseError = ''Error''"

record Condition =
  Type :: string
  Status :: string
  ObservedGeneration :: int
  LastTransitionTime :: time
  Reason :: string
  Message :: string

text \<open>
  \<^verbatim>\<open>v1alpha1.UpstreamOIDCProvider\<close>: the fields the controller reads and writes, named by
  their path in the Go struct.
\<close>

record UpstreamOIDCProvider =
  Namespace :: string
  Name :: string
  Generation :: int
  Spec_Issuer :: string
  Spec_AdditionalScopes :: "string list"
  Spec_Client_SecretName :: string
  Status_Phase :: string
  Status_Conditions :: "Condition list"

text \<open>\<^verbatim>\<open>corev1.Secret\<close>; a key absent from \<^verbatim>\<open>Data\<close> reads as the empty byte slice.\<close>

record Secret =
  secret_Type :: string
  secret_Data :: "string \<rightharpoonup> string"

definition data_at :: "Secret \<Rightarrow> string \<Rightarrow> string" where
  "data_at secret k = (case secret_Data secret k of None \<Rightarrow> [] | Some v \<Rightarrow> v)"

text \<open>\<^verbatim>\<open>url.URL\<close> and the endpoints of an \<^verbatim>\<open>oidc.Provider\<close>.\<close>

record URL =
  Scheme :: string
  Host :: string
  Path :: string

definition zeroURL :: URL where
  "zeroURL = \<lparr>Scheme = [], Host = [], Path = []\<rparr>"

record oidc_Provider =
  AuthURL :: string
  TokenURL :: string

record UpstreamOIDCIdentityProvider =
  idp_Name :: string
  ClientID :: string
  AuthorizationURL :: URL
  Scopes :: "string list"

datatype error = ErrSyntheticRequeue | ErrList string

text \<open>
  What the controller calls but does not implement: the secret lister (an error message
  or the secret), the discovery transport \<^verbatim>\<open>oidc.NewProvider\<close>, \<^verbatim>\<open>url.Parse\<close>, the
  \<^verbatim>\<open>%q\<close> verb of \<^verbatim>\<open>fmt.Sprintf\<close>, the clock (its successive readings), the error of the
  provider lister and the error of the \<^verbatim>\<open>UpdateStatus\<close> call.
\<close>

record env =
  secrets_Get :: "string \<Rightarrow> string \<Rightarrow> string + Secret"
  oidc_NewProvider :: "string \<Rightarrow> string + oidc_Provider"
  url_Parse :: "string \<Rightarrow> string + URL"
  quote :: "string \<Rightarrow> string"
  clock :: "nat \<Rightarrow> time"
  List_err :: "string option"
  UpdateStatus_err :: "UpstreamOIDCProvider \<Rightarrow> string option"

text \<open>
  The mutable state around one controller: the number of clock readings taken so far, the
  expiring discovery cache (value and expiry per key), the log of discovery calls, the
  provider objects held by the store and listed by the informer, the log of
  \<^verbatim>\<open>UpdateStatus\<close> calls, and the list last handed to \<^verbatim>\<open>SetIDPList\<close>.
\<close>

record state =
  ticks :: nat
  validatorCache :: "string \<rightharpoonup> (oidc_Provider \<times> time)"
  discovery_calls :: "string list"
  store :: "UpstreamOIDCProvider list"
  status_updates :: "UpstreamOIDCProvider list"
  idp_list :: "UpstreamOIDCIdentityProvider list"

section \<open>Clock and expiring cache\<close>

definition Now :: "env \<Rightarrow> state \<Rightarrow> time \<times> state" where
  "Now e s = (clock e (ticks s), s\<lparr>ticks := Suc (ticks s)\<rparr>)"

text \<open>
  \<^verbatim>\<open>cache.Expiring\<close> of \<^verbatim>\<open>k8s.io/apimachinery\<close>: \<^verbatim>\<open>Get\<close> answers for an entry whose
  expiry is after the current time; \<^verbatim>\<open>Set\<close> stores the value with expiry
  \<^verbatim>\<open>now + ttl\<close> and collects the expired entries of the other keys.
\<close>

definition cache_Get :: "env \<Rightarrow> string \<Rightarrow> state \<Rightarrow> oidc_Provider option \<times> state" where
  "cache_Get e key s =
     (let (now, s1) = Now e s in
      (case validatorCache s1 key of
         None \<Rightarrow> None
       | Some (val, expiry) \<Rightarrow> if now < expiry then Some val else None, s1))"

definition cache_gc :: "time \<Rightarrow> (string \<rightharpoonup> (oidc_Provider \<times> time)) \<Rightarrow> (string \<rightharpoonup> (oidc_Provider \<times> time))" where
  "cache_gc now m =
     (\<lambda>k. case m k of
             None \<Rightarrow> None
           | Some (val, expiry) \<Rightarrow> if now < expiry then Some (val, expiry) else None)"

definition cache_Set :: "env \<Rightarrow> string \<Rightarrow> oidc_Provider \<Rightarrow> int \<Rightarrow> state \<Rightarrow> state" where
  "cache_Set e key val ttl s =
     (let (now, s1) = Now e s in
      s1\<lparr>validatorCache := (cache_gc now (validatorCache s1))(key \<mapsto> (val, now + ttl))\<rparr>)"

section \<open>Validators\<close>

text \<open>\<^verbatim>\<open>computeScopes\<close>: the set of scopes with \<^verbatim>\<open>openid\<close>, as a sorted list.\<close>

definition computeScopes :: "string list \<Rightarrow> string list" where
  "computeScopes additionalScopes = sort (remdups (''openid'' # additionalScopes))"

text \<open>
  \<^verbatim>\<open>validateSecret\<close> (lines 151 to 195). The result struct is passed by pointer in the
  source; here it is returned beside the condition.
\<close>

definition validateSecret ::
  "env \<Rightarrow> UpstreamOIDCProvider \<Rightarrow> UpstreamOIDCIdentityProvider \<Rightarrow> Condition \<times> UpstreamOIDCIdentityProvider" where
  "validateSecret e upstream result =
     (let secretName = Spec_Client_SecretName upstream in
      case secrets_Get e (Namespace upstream) secretName of
        Inl err \<Rightarrow>
          (\<lparr>Type = typeClientCredsValid, Status = ConditionFalse, ObservedGeneration = 0,
            LastTransitionTime = 0, Reason = reasonNotFound, Message = err\<rparr>, result)
      | Inr secret \<Rightarrow>
          if secret_Type secret \<noteq> oidcClientSecretType then
            (\<lparr>Type = typeClientCredsValid, Status = ConditionFalse, ObservedGeneration = 0,
              LastTransitionTime = 0, Reason = reasonWrongType,
              Message = ''referenced Secret '' @ quote e secretName @ '' has wrong type ''
                @ quote e (secret_Type secret) @ '' (should be '' @ quote e oidcClientSecretType
                @ '')''\<rparr>, result)
          else
            let clientID = data_at secret clientIDDataKey;
                clientSecret = data_at secret clientSecretDataKey in
            if length clientID = 0 \<or> length clientSecret = 0 then
              (\<lparr>Type = typeClientCredsValid, Status = ConditionFalse, ObservedGeneration = 0,
                LastTransitionTime = 0, Reason = reasonMissingKeys,
                Message = ''referenced Secret '' @ quote e secretName
                  @ '' is missing required keys ['' @ quote e clientIDDataKey @ '' ''
                  @ quote e clientSecretDataKey @ '']''\<rparr>, result)
            else
              (\<lparr>Type = typeClientCredsValid, Status = ConditionTrue, ObservedGeneration = 0,
                LastTransitionTime = 0, Reason = reasonSuccess,
                Message = ''loaded client credentials''\<rparr>, result\<lparr>ClientID := clientID\<rparr>))"

text \<open>
  \<^verbatim>\<open>validateIssuer\<close>, second half (lines 222 to 248): parse and check the authorization
  endpoint of the provider in hand.
\<close>

definition checkAuthURL ::
  "env \<Rightarrow> oidc_Provider \<Rightarrow> UpstreamOIDCIdentityProvider \<Rightarrow> Condition \<times> UpstreamOIDCIdentityProvider" where
  "checkAuthURL e discoveredProvider result =
     (case url_Parse e (AuthURL discoveredProvider) of
        Inl err \<Rightarrow>
          (\<lparr>Type = typeOIDCDiscoverySucceeded, Status = ConditionFalse, ObservedGeneration = 0,
            LastTransitionTime = 0, Reason = reasonInvalidResponse,
            Message = ''failed to parse authorization endpoint URL: '' @ err\<rparr>, result)
      | Inr authURL \<Rightarrow>
          if Scheme authURL \<noteq> ''https'' then
            (\<lparr>Type = typeOIDCDiscoverySucceeded, Status = ConditionFalse, ObservedGeneration = 0,
              LastTransitionTime = 0, Reason = reasonInvalidResponse,
              Message = ''authorization endpoint URL scheme must be '' @ [CHR 0x22] @ ''https''
                @ [CHR 0x22] @ '', not '' @ quote e (Scheme authURL)\<rparr>, result)
          else
            (\<lparr>Type = typeOIDCDiscoverySucceeded, Status = ConditionTrue, ObservedGeneration = 0,
              LastTransitionTime = 0, Reason = reasonSuccess,
              Message = ''discovered issuer configuration''\<rparr>,
             result\<lparr>AuthorizationURL := authURL\<rparr>))"

text \<open>
  \<^verbatim>\<open>validateIssuer\<close> (lines 198 to 249): the provider from the cache if possible, a
  fresh discovery call otherwise, logged in \<open>discovery_calls\<close> and cached on success.
\<close>

definition validateIssuer ::
  "env \<Rightarrow> UpstreamOIDCProvider \<Rightarrow> UpstreamOIDCIdentityProvider \<Rightarrow> state
     \<Rightarrow> Condition \<times> UpstreamOIDCIdentityProvider \<times> state" where
  "validateIssuer e upstream result s =
     (let (cached, s1) = cache_Get e (Spec_Issuer upstream) s in
      case cached of
        Some discoveredProvider \<Rightarrow>
          (let (cond, result') = checkAuthURL e discoveredProvider result in (cond, result', s1))
      | None \<Rightarrow>
          (let s2 = s1\<lparr>discovery_calls := discovery_calls s1 @ [Spec_Issuer upstream]\<rparr> in
           case oidc_NewProvider e (Spec_Issuer upstream) of
             Inl err \<Rightarrow>
               (\<lparr>Type = typeOIDCDiscoverySucceeded, Status = ConditionFalse,
                 ObservedGeneration = 0, LastTransitionTime = 0, Reason = reasonUnreachable,
                 Message = ''failed to perform OIDC discovery against ''
                   @ quote e (Spec_Issuer upstream)\<rparr>, result, s2)
           | Inr discoveredProvider \<Rightarrow>
               (let s3 = cache_Set e (Spec_Issuer upstream) discoveredProvider validatorCacheTTL s2;
                    (cond, result') = checkAuthURL e discoveredProvider result
                in (cond, result', s3))))"

section \<open>Condition merge and status update\<close>

text \<open>
  The search loop of \<^verbatim>\<open>mergeCondition\<close> (lines 290 to 296): it runs over the whole list,
  so \<open>old\<close> ends at the last entry of the type.
\<close>

fun findOld :: "Condition list \<Rightarrow> string \<Rightarrow> nat \<Rightarrow> nat option \<Rightarrow> nat option" where
  "findOld [] ty i old = old"
| "findOld (c # cs) ty i old = findOld cs ty (Suc i) (if Type c = ty then Some i else old)"

definition mergeCondition :: "Condition list \<Rightarrow> Condition \<Rightarrow> Condition list \<times> bool" where
  "mergeCondition existing new =
     (case findOld existing (Type new) 0 None of
        None \<Rightarrow> (existing @ [new], True)
      | Some i \<Rightarrow>
          (let old = existing ! i;
               new' = (if Status old = Status new
                       then new\<lparr>LastTransitionTime := LastTransitionTime old\<rparr> else new)
           in if old \<noteq> new' then (existing[i := new'], True) else (existing, False)))"

text \<open>The loop of \<^verbatim>\<open>updateStatus\<close> over the new conditions (lines 257 to 267).\<close>

fun mergeConditions ::
  "env \<Rightarrow> UpstreamOIDCProvider \<Rightarrow> Condition list \<Rightarrow> UpstreamOIDCProvider \<Rightarrow> state
     \<Rightarrow> UpstreamOIDCProvider \<times> state" where
  "mergeConditions e upstream [] updated s = (updated, s)"
| "mergeConditions e upstream (c # conditions) updated s =
     (let (now, s1) = Now e s;
          cond = c\<lparr>LastTransitionTime := now, ObservedGeneration := Generation upstream\<rparr>;
          updated1 = updated\<lparr>Status_Conditions :=
                       fst (mergeCondition (Status_Conditions updated) cond)\<rparr>;
          updated2 = (if Status cond = ConditionFalse
                      then updated1\<lparr>Status_Phase := PhaseError\<rparr> else updated1)
      in mergeConditions e upstream conditions updated2 s1)"

definition same_object :: "UpstreamOIDCProvider \<Rightarrow> UpstreamOIDCProvider \<Rightarrow> bool" where
  "same_object a b \<longleftrightarrow> Namespace a = Namespace b \<and> Name a = Name b"

text \<open>
  \<^verbatim>\<open>updateStatus\<close> (lines 251 to 284), in two parts. First the updated copy of the
  object is computed (lines 253 to 271): phase Ready, the conditions merged, the list
  sorted stably by type.
\<close>

definition computeUpdated ::
  "env \<Rightarrow> UpstreamOIDCProvider \<Rightarrow> Condition list \<Rightarrow> state \<Rightarrow> UpstreamOIDCProvider \<times> state" where
  "computeUpdated e upstream conditions s =
     (let (updated, s1) =
            mergeConditions e upstream conditions (upstream\<lparr>Status_Phase := PhaseReady\<rparr>) s
      in (updated\<lparr>Status_Conditions := sort_key Type (Status_Conditions updated)\<rparr>, s1))"

text \<open>
  Then it is compared with the object and written when it differs (lines 273 to 283). The
  call to \<^verbatim>\<open>UpdateStatus\<close> is logged; when it does not fail, the store holds the updated
  object in place of the old one.
\<close>

definition updateStatus ::
  "env \<Rightarrow> UpstreamOIDCProvider \<Rightarrow> Condition list \<Rightarrow> state \<Rightarrow> state" where
  "updateStatus e upstream conditions s =
     (let (updated, s1) = computeUpdated e upstream conditions s
      in if upstream = updated then s1
         else
           (let s2 = s1\<lparr>status_updates := status_updates s1 @ [updated]\<rparr> in
            case UpdateStatus_err e updated of
              Some err \<Rightarrow> s2
            | None \<Rightarrow> s2\<lparr>store := map (\<lambda>u. if same_object u updated then updated else u)
                                     (store s2)\<rparr>))"

section \<open>The reconciliation pass\<close>

text \<open>
  \<^verbatim>\<open>validateUpstream\<close> (lines 121 to 148), in two parts: the validators that compute the
  conditions (lines 122 to 129), then the status update and the verdict.
\<close>

definition runValidators ::
  "env \<Rightarrow> UpstreamOIDCProvider \<Rightarrow> state
     \<Rightarrow> Condition list \<times> UpstreamOIDCIdentityProvider \<times> state" where
  "runValidators e upstream s =
     (let result = \<lparr>idp_Name = Name upstream, ClientID = [], AuthorizationURL = zeroURL,
                    Scopes = computeScopes (Spec_AdditionalScopes upstream)\<rparr>;
          (c1, result1) = validateSecret e upstream result;
          (c2, result2, s1) = validateIssuer e upstream result1 s
      in ([c1, c2], result2, s1))"

definition validateUpstream ::
  "env \<Rightarrow> UpstreamOIDCProvider \<Rightarrow> state \<Rightarrow> UpstreamOIDCIdentityProvider option \<times> state" where
  "validateUpstream e upstream s =
     (let (conditions, result, s1) = runValidators e upstream s;
          s2 = updateStatus e upstream conditions s1;
          valid = fold (\<lambda>condition valid. if Status condition = ConditionFalse then False else valid)
                    conditions True
      in (if valid then Some result else None, s2))"

text \<open>\<^verbatim>\<open>Sync\<close> (lines 96 to 117): the loop over the listed objects, then the pass.\<close>

fun Sync_loop ::
  "env \<Rightarrow> UpstreamOIDCProvider list \<Rightarrow> bool \<Rightarrow> UpstreamOIDCIdentityProvider list \<Rightarrow> state
     \<Rightarrow> bool \<times> UpstreamOIDCIdentityProvider list \<times> state" where
  "Sync_loop e [] requeue validatedUpstreams s = (requeue, validatedUpstreams, s)"
| "Sync_loop e (upstream # rest) requeue validatedUpstreams s =
     (case validateUpstream e upstream s of
        (None, s') \<Rightarrow> Sync_loop e rest True validatedUpstreams s'
      | (Some valid, s') \<Rightarrow> Sync_loop e rest requeue (validatedUpstreams @ [valid]) s')"

definition Sync :: "env \<Rightarrow> state \<Rightarrow> error option \<times> state" where
  "Sync e s =
     (case List_err e of
        Some err \<Rightarrow> (Some (ErrList err), s)
      | None \<Rightarrow>
          (let (requeue, validatedUpstreams, s1) = Sync_loop e (store s) False [] s;
               s2 = s1\<lparr>idp_list := validatedUpstreams\<rparr>
           in (if requeue then Some ErrSyntheticRequeue else None, s2)))"

section \<open>Definitions used to state the properties\<close>

text \<open>The result struct as \<^verbatim>\<open>validateUpstream\<close> initialises it (lines 122 to 125).\<close>

definition initialResult :: "UpstreamOIDCProvider \<Rightarrow> UpstreamOIDCIdentityProvider" where
  "initialResult upstream =
     \<lparr>idp_Name = Name upstream, ClientID = [], AuthorizationURL = zeroURL,
      Scopes = computeScopes (Spec_AdditionalScopes upstream)\<rparr>"

text \<open>
  The provider metadata a call of \<^verbatim>\<open>validateIssuer\<close> works with: the cached one, or the
  one a fresh discovery returns; none when the cache misses and discovery fails.
\<close>

definition usedProvider :: "env \<Rightarrow> string \<Rightarrow> state \<Rightarrow> oidc_Provider option" where
  "usedProvider e issuer s =
     (case fst (cache_Get e issuer s) of
        Some p \<Rightarrow> Some p
      | None \<Rightarrow> (case oidc_NewProvider e issuer of Inl err \<Rightarrow> None | Inr p \<Rightarrow> Some p))"

text \<open>
  The conditions and the result computed for each listed object during a pass, in listing
  order, each in the state its predecessors left.
\<close>

fun passConditions ::
  "env \<Rightarrow> UpstreamOIDCProvider list \<Rightarrow> state
     \<Rightarrow> (Condition list \<times> UpstreamOIDCIdentityProvider) list" where
  "passConditions e [] s = []"
| "passConditions e (u # us) s =
     (fst (runValidators e u s), fst (snd (runValidators e u s)))
       # passConditions e us (snd (validateUpstream e u s))"

definition allTrue :: "Condition list \<times> UpstreamOIDCIdentityProvider \<Rightarrow> bool" where
  "allTrue x = list_all (\<lambda>c. Status c = ConditionTrue) (fst x)"

definition someFalse :: "Condition list \<times> UpstreamOIDCIdentityProvider \<Rightarrow> bool" where
  "someFalse x = list_ex (\<lambda>c. Status c = ConditionFalse) (fst x)"

section \<open>Example inputs\<close>

definition demo_secret :: Secret where
  "demo_secret = \<lparr>secret_Type = oidcClientSecretType,
     secret_Data = [clientIDDataKey \<mapsto> ''id'', clientSecretDataKey \<mapsto> ''pw'']\<rparr>"

definition demo_parse :: "string \<Rightarrow> string + URL" where
  "demo_parse u =
     (if take 8 u = ''https://'' then Inr \<lparr>Scheme = ''https'', Host = drop 8 u, Path = []\<rparr>
      else if take 7 u = ''http://'' then Inr \<lparr>Scheme = ''http'', Host = drop 7 u, Path = []\<rparr>
      else Inl ''missing protocol scheme'')"

definition demo_discover :: "string \<Rightarrow> string + oidc_Provider" where
  "demo_discover i =
     (if i = ''https://example.com''
        then Inr \<lparr>AuthURL = ''https://example.com/auth'', TokenURL = ''https://example.com/token''\<rparr>
      else if i = ''https://plain.example.com''
        then Inr \<lparr>AuthURL = ''http://plain.example.com/auth'', TokenURL = []\<rparr>
      else Inl ''no such host'')"

definition demo_env :: env where
  "demo_env = \<lparr>
     secrets_Get = (\<lambda>ns n. if n = ''s1'' then Inr demo_secret
                           else if n = ''s2'' then Inr (demo_secret\<lparr>secret_Type := ''Opaque''\<rparr>)
                           else if n = ''s3'' then Inr (demo_secret\<lparr>secret_Data := [clientIDDataKey \<mapsto> ''id'']\<rparr>)
                           else Inl ''secret not found''),
     oidc_NewProvider = demo_discover,
     url_Parse = demo_parse,
     quote = (\<lambda>x. [CHR 0x22] @ x @ [CHR 0x22]),
     clock = (\<lambda>n. int n),
     List_err = None,
     UpdateStatus_err = (\<lambda>u. None)\<rparr>"

definition demo_upstream :: UpstreamOIDCProvider where
  "demo_upstream = \<lparr>Namespace = ''ns'', Name = ''idp1'', Generation = 1,
     Spec_Issuer = ''https://example.com'', Spec_AdditionalScopes = [''email'', ''openid''],
     Spec_Client_SecretName = ''s1'', Status_Phase = ''Pending'', Status_Conditions = []\<rparr>"

definition demo_state :: state where
  "demo_state = \<lparr>ticks = 0, validatorCache = Map.empty, discovery_calls = [],
     store = [demo_upstream], status_updates = [], idp_list = []\<rparr>"


definition demo_result :: UpstreamOIDCIdentityProvider where
  "demo_result = \<lparr>idp_Name = ''idp1'', ClientID = ''id'',
     AuthorizationURL = \<lparr>Scheme = ''https'', Host = ''example.com/auth'', Path = []\<rparr>,
     Scopes = [''email'', ''openid'']\<rparr>"

text \<open>A resource whose secret does not exist, while its issuer is reachable and sound.\<close>

definition demo_nosecret :: UpstreamOIDCProvider where
  "demo_nosecret = demo_upstream\<lparr>Name := ''idp2'', Spec_Client_SecretName := ''missing''\<rparr>"

definition demo_mixed :: state where
  "demo_mixed = demo_state\<lparr>store := [demo_upstream, demo_nosecret],
     idp_list := [demo_result\<lparr>idp_Name := ''stale''\<rparr>]\<rparr>"

definition demo_failing :: state where
  "demo_failing = demo_state\<lparr>store := [demo_nosecret],
     idp_list := [demo_result\<lparr>idp_Name := ''stale''\<rparr>]\<rparr>"

lemmas demo_defs =
  demo_secret_def demo_parse_def demo_discover_def demo_env_def demo_upstream_def demo_state_def

lemmas eval_defs =
  validateUpstream_def runValidators_def validateSecret_def validateIssuer_def checkAuthURL_def
  cache_Get_def cache_Set_def cache_gc_def Now_def updateStatus_def computeUpdated_def
  mergeCondition_def Let_def
  computeScopes_def data_at_def usedProvider_def initialResult_def zeroURL_def same_object_def

lemmas const_defs =
  oidcClientSecretType_def clientIDDataKey_def clientSecretDataKey_def
  typeClientCredsValid_def typeOIDCDiscoverySucceeded_def reasonNotFound_def
  reasonWrongType_def reasonMissingKeys_def reasonSuccess_def reasonUnreachable_def
  reasonInvalidResponse_def ConditionTrue_def ConditionFalse_def PhaseReady_def PhaseError_def

section \<open>The authenticator cache cleaner\<close>

text \<open>
  Embedding of \<^verbatim>\<open>Sync\<close> of package \<^verbatim>\<open>cachecleaner\<close> (lines 345 to 399 of
  \<^verbatim>\<open>active_directory_upstream_watcher.go\<close>).
\<close>

record Key =
  APIGroup :: string
  Kind :: string
  key_Namespace :: string
  key_Name :: string

text \<open>
  Modelled from the spec: the package \<^verbatim>\<open>authncache\<close> is not among the sources. Its cache
  is a runtime cache keyed by (namespace, name, kind, apiGroup); a cached value may expose
  a close hook. The cache is kept as an association list read as a map: \<open>Keys\<close> lists
  each key once, \<open>Get\<close> reads the value of a key, \<open>Delete\<close> removes a key.
\<close>

record Value =
  value_id :: nat
  has_Close :: bool

type_synonym Cache = "(Key \<times> Value) list"

definition Keys :: "Cache \<Rightarrow> Key list" where
  "Keys c = remdups (map fst c)"

definition Get :: "Cache \<Rightarrow> Key \<Rightarrow> Value option" where
  "Get c key = map_of c key"

definition Delete :: "Cache \<Rightarrow> Key \<Rightarrow> Cache" where
  "Delete c key = filter (\<lambda>kv. fst kv \<noteq> key) c"

text \<open>The object metadata of a WebhookAuthenticator or a JWTAuthenticator.\<close>

record Authenticator =
  auth_Namespace :: string
  auth_Name :: string

datatype cleaner_error = ErrListWebhookAuthenticators string | ErrListJWTAuthenticators string

text \<open>
  The two listers (an error message or the objects) and the API group
  \<^verbatim>\<open>auth1alpha1.SchemeGroupVersion.Group\<close>, declared outside the sources.
\<close>

record cleaner_env =
  webhooks_List :: "string + Authenticator list"
  jwtAuthenticators_List :: "string + Authenticator list"
  Group :: string

text \<open>The cache and the log of the values whose \<^verbatim>\<open>Close\<close> was called.\<close>

record cleaner_state =
  cache :: Cache
  closed :: "Value list"

definition webhookKey :: "string \<Rightarrow> Authenticator \<Rightarrow> Key" where
  "webhookKey g webhook =
     \<lparr>APIGroup = g, Kind = ''WebhookAuthenticator'',
      key_Namespace = auth_Namespace webhook, key_Name = auth_Name webhook\<rparr>"

definition jwtKey :: "string \<Rightarrow> Authenticator \<Rightarrow> Key" where
  "jwtKey g jwtAuthenticator =
     \<lparr>APIGroup = g, Kind = ''JWTAuthenticator'',
      key_Namespace = auth_Namespace jwtAuthenticator, key_Name = auth_Name jwtAuthenticator\<rparr>"

text \<open>The index of the declared authenticators (lines 357 to 375).\<close>

definition authenticatorSet ::
  "string \<Rightarrow> Authenticator list \<Rightarrow> Authenticator list \<Rightarrow> (Key \<rightharpoonup> bool)" where
  "authenticatorSet g webhooks jwtAuthenticators =
     fold (\<lambda>jwtAuthenticator m. m(jwtKey g jwtAuthenticator \<mapsto> True)) jwtAuthenticators
       (fold (\<lambda>webhook m. m(webhookKey g webhook \<mapsto> True)) webhooks Map.empty)"

text \<open>The deletion loop over the keys of the cache (lines 378 to 397).\<close>

fun cleaner_loop :: "string \<Rightarrow> (Key \<rightharpoonup> bool) \<Rightarrow> Key list \<Rightarrow> cleaner_state \<Rightarrow> cleaner_state" where
  "cleaner_loop g aset [] s = s"
| "cleaner_loop g aset (key # keys) s =
     (if APIGroup key \<noteq> g
         \<or> (Kind key \<noteq> ''WebhookAuthenticator'' \<and> Kind key \<noteq> ''JWTAuthenticator'')
      then cleaner_loop g aset keys s
      else if aset key = None then
        (let s1 = (case Get (cache s) key of
                     None \<Rightarrow> s
                   | Some v \<Rightarrow> if has_Close v then s\<lparr>closed := closed s @ [v]\<rparr> else s);
             s2 = s1\<lparr>cache := Delete (cache s1) key\<rparr>
         in cleaner_loop g aset keys s2)
      else cleaner_loop g aset keys s)"

definition cleaner_Sync :: "cleaner_env \<Rightarrow> cleaner_state \<Rightarrow> cleaner_error option \<times> cleaner_state" where
  "cleaner_Sync e s =
     (case webhooks_List e of
        Inl err \<Rightarrow> (Some (ErrListWebhookAuthenticators err), s)
      | Inr webhooks \<Rightarrow>
          (case jwtAuthenticators_List e of
             Inl err \<Rightarrow> (Some (ErrListJWTAuthenticators err), s)
           | Inr jwtAuthenticators \<Rightarrow>
               (None, cleaner_loop (Group e)
                        (authenticatorSet (Group e) webhooks jwtAuthenticators)
                        (Keys (cache s)) s)))"

text \<open>
  The keys the cleaner is responsible for, the keys implied by the declared resources, and
  the keys it has to remove; \<open>closing\<close> tells whether the value cached under a key
  exposes the close hook.
\<close>

definition own :: "string \<Rightarrow> Key \<Rightarrow> bool" where
  "own g key \<longleftrightarrow>
     APIGroup key = g \<and> (Kind key = ''WebhookAuthenticator'' \<or> Kind key = ''JWTAuthenticator'')"

definition declared :: "string \<Rightarrow> Authenticator list \<Rightarrow> Authenticator list \<Rightarrow> Key list" where
  "declared g webhooks jwtAuthenticators =
     map (webhookKey g) webhooks @ map (jwtKey g) jwtAuthenticators"

definition stale :: "string \<Rightarrow> Authenticator list \<Rightarrow> Authenticator list \<Rightarrow> Key \<Rightarrow> bool" where
  "stale g webhooks jwtAuthenticators key \<longleftrightarrow>
     own g key \<and> key \<notin> set (declared g webhooks jwtAuthenticators)"

definition closing :: "Cache \<Rightarrow> Key \<Rightarrow> bool" where
  "closing c key = (case Get c key of None \<Rightarrow> False | Some v \<Rightarrow> has_Close v)"

definition demo_group :: string where
  "demo_group = ''authentication.concierge.pinniped.dev''"

definition demo_cleaner_env :: cleaner_env where
  "demo_cleaner_env = \<lparr>
     webhooks_List = Inr [\<lparr>auth_Namespace = ''ns'', auth_Name = ''a''\<rparr>],
     jwtAuthenticators_List = Inr [\<lparr>auth_Namespace = ''ns'', auth_Name = ''b''\<rparr>],
     Group = demo_group\<rparr>"

text \<open>
  A cache holding the two declared authenticators, a third one of this API group that is
  no longer declared, and an entry of a foreign API group.
\<close>

definition demo_cleaner_state :: cleaner_state where
  "demo_cleaner_state = \<lparr>
     cache =
       [(\<lparr>APIGroup = demo_group, Kind = ''WebhookAuthenticator'', key_Namespace = ''ns'',
          key_Name = ''a''\<rparr>, \<lparr>value_id = 1, has_Close = False\<rparr>),
        (\<lparr>APIGroup = demo_group, Kind = ''JWTAuthenticator'', key_Namespace = ''ns'',
          key_Name = ''b''\<rparr>, \<lparr>value_id = 2, has_Close = True\<rparr>),
        (\<lparr>APIGroup = demo_group, Kind = ''JWTAuthenticator'', key_Namespace = ''ns'',
          key_Name = ''c''\<rparr>, \<lparr>value_id = 3, has_Close = True\<rparr>),
        (\<lparr>APIGroup = ''other.example.com'', Kind = ''JWTAuthenticator'', key_Namespace = ''ns'',
          key_Name = ''c''\<rparr>, \<lparr>value_id = 4, has_Close = True\<rparr>)],
     closed = []\<rparr>"

section \<open>Secret validation\<close>



section \<open>Both validators always run\<close>




lemma runValidators_eq:
  "runValidators e u s =
     ([fst (validateSecret e u (initialResult u)),
       fst (validateIssuer e u (snd (validateSecret e u (initialResult u))) s)],
      fst (snd (validateIssuer e u (snd (validateSecret e u (initialResult u))) s)),
      snd (snd (validateIssuer e u (snd (validateSecret e u (initialResult u))) s)))"
  by (simp add: runValidators_def initialResult_def Let_def split: prod.splits)


section \<open>Scheme of the authorization endpoint\<close>

lemma validateIssuer_used:
  "usedProvider e (Spec_Issuer u) s = Some p \<Longrightarrow>
     (fst (validateIssuer e u r s), fst (snd (validateIssuer e u r s))) = checkAuthURL e p r"
  by (auto simp: usedProvider_def validateIssuer_def Let_def
           split: prod.splits option.splits sum.splits)

lemma validateIssuer_unused:
  "usedProvider e (Spec_Issuer u) s = None \<Longrightarrow>
     Status (fst (validateIssuer e u r s)) = ConditionFalse
     \<and> Reason (fst (validateIssuer e u r s)) = reasonUnreachable
     \<and> fst (snd (validateIssuer e u r s)) = r"
  by (auto simp: usedProvider_def validateIssuer_def Let_def
           split: prod.splits option.splits sum.splits)

text \<open>
  C6. Whenever \<^verbatim>\<open>validateIssuer\<close> has provider metadata in hand, from the cache or from a
  fresh discovery, an authorization endpoint that does not parse or whose scheme is not
  \<^verbatim>\<open>https\<close> gives False/InvalidResponse and leaves the result untouched; the condition is
  True/Success, with the parsed endpoint stored in the result, only when the endpoint
  parses and its scheme is \<^verbatim>\<open>https\<close>.
\<close>

theorem validateIssuer_scheme_enforced:
  "(usedProvider e (Spec_Issuer u) s = Some p \<longrightarrow>
      (case url_Parse e (AuthURL p) of
         Inl err \<Rightarrow>
           Status (fst (validateIssuer e u r s)) = ConditionFalse
           \<and> Reason (fst (validateIssuer e u r s)) = reasonInvalidResponse
           \<and> fst (snd (validateIssuer e u r s)) = r
       | Inr authURL \<Rightarrow>
           if Scheme authURL \<noteq> ''https'' then
             Status (fst (validateIssuer e u r s)) = ConditionFalse
             \<and> Reason (fst (validateIssuer e u r s)) = reasonInvalidResponse
             \<and> fst (snd (validateIssuer e u r s)) = r
           else
             Status (fst (validateIssuer e u r s)) = ConditionTrue
             \<and> Reason (fst (validateIssuer e u r s)) = reasonSuccess
             \<and> fst (snd (validateIssuer e u r s)) = r\<lparr>AuthorizationURL := authURL\<rparr>))
   \<and> (Status (fst (validateIssuer e u r s)) = ConditionTrue \<longrightarrow>
        (\<exists>p authURL. usedProvider e (Spec_Issuer u) s = Some p
           \<and> url_Parse e (AuthURL p) = Inr authURL \<and> Scheme authURL = ''https''))"
proof (intro conjI impI)
  assume "usedProvider e (Spec_Issuer u) s = Some p"
  from validateIssuer_used [OF this, of r]
  show "case url_Parse e (AuthURL p) of
         Inl err \<Rightarrow>
           Status (fst (validateIssuer e u r s)) = ConditionFalse
           \<and> Reason (fst (validateIssuer e u r s)) = reasonInvalidResponse
           \<and> fst (snd (validateIssuer e u r s)) = r
       | Inr authURL \<Rightarrow>
           if Scheme authURL \<noteq> ''https'' then
             Status (fst (validateIssuer e u r s)) = ConditionFalse
             \<and> Reason (fst (validateIssuer e u r s)) = reasonInvalidResponse
             \<and> fst (snd (validateIssuer e u r s)) = r
           else
             Status (fst (validateIssuer e u r s)) = ConditionTrue
             \<and> Reason (fst (validateIssuer e u r s)) = reasonSuccess
             \<and> fst (snd (validateIssuer e u r s)) = r\<lparr>AuthorizationURL := authURL\<rparr>"
    by (auto simp: checkAuthURL_def split: sum.splits)
next
  assume t: "Status (fst (validateIssuer e u r s)) = ConditionTrue"
  show "\<exists>p authURL. usedProvider e (Spec_Issuer u) s = Some p
           \<and> url_Parse e (AuthURL p) = Inr authURL \<and> Scheme authURL = ''https''"
  proof (cases "usedProvider e (Spec_Issuer u) s")
    case None
    from validateIssuer_unused [OF this, of r] t show ?thesis
      by (simp add: ConditionTrue_def ConditionFalse_def)
  next
    case (Some p)
    from validateIssuer_used [OF this, of r] t show ?thesis
      by (auto simp: Some checkAuthURL_def ConditionTrue_def ConditionFalse_def
               split: sum.splits if_splits)
  qed
qed

theorem validateIssuer_scheme_enforced_witness:
  "usedProvider demo_env ''https://plain.example.com'' demo_state
     = Some \<lparr>AuthURL = ''http://plain.example.com/auth'', TokenURL = []\<rparr>
   \<and> Reason (fst (validateIssuer demo_env (demo_upstream\<lparr>Spec_Issuer := ''https://plain.example.com''\<rparr>)
        (initialResult demo_upstream) demo_state)) = ''InvalidResponse''
   \<and> Status (fst (validateIssuer demo_env (demo_upstream\<lparr>Spec_Issuer := ''https://plain.example.com''\<rparr>)
        (initialResult demo_upstream) demo_state)) = ''False''
   \<and> Status (fst (validateIssuer demo_env demo_upstream (initialResult demo_upstream) demo_state)) = ''True''"
proof -
  have 1: "usedProvider demo_env ''https://plain.example.com'' demo_state
     = Some \<lparr>AuthURL = ''http://plain.example.com/auth'', TokenURL = []\<rparr>"
    by (simp add: demo_defs usedProvider_def cache_Get_def Now_def)
  have 2: "usedProvider demo_env ''https://example.com'' demo_state
     = Some \<lparr>AuthURL = ''https://example.com/auth'', TokenURL = ''https://example.com/token''\<rparr>"
    by (simp add: demo_defs usedProvider_def cache_Get_def Now_def)
  have 3: "demo_parse ''http://plain.example.com/auth'' = Inr \<lparr>Scheme = ''http'', Host = ''plain.example.com/auth'', Path = []\<rparr>"
    by (simp add: demo_parse_def)
  have 4: "demo_parse ''https://example.com/auth'' = Inr \<lparr>Scheme = ''https'', Host = ''example.com/auth'', Path = []\<rparr>"
    by (simp add: demo_parse_def)
  show ?thesis
    using validateIssuer_scheme_enforced [of demo_env "demo_upstream\<lparr>Spec_Issuer := ''https://plain.example.com''\<rparr>"
        demo_state "\<lparr>AuthURL = ''http://plain.example.com/auth'', TokenURL = []\<rparr>" "initialResult demo_upstream"]
      validateIssuer_scheme_enforced [of demo_env demo_upstream
        demo_state "\<lparr>AuthURL = ''https://example.com/auth'', TokenURL = ''https://example.com/token''\<rparr>" "initialResult demo_upstream"]
      1 2 3 4
    by (simp add: demo_upstream_def demo_env_def const_defs)
qed

section \<open>Discovery cache\<close>




text \<open>
  C10. \<^verbatim>\<open>validateIssuer\<close> changes the cache only after a successful discovery call: on a
  cache hit and on a failed discovery the cache is what it was. After a failure (condition
  False/Unreachable, one discovery call logged), a later call in a state with that cache,
  at a clock reading that is not earlier, makes a discovery call again.
\<close>

theorem failed_discovery_not_cached:
  "((fst (cache_Get e (Spec_Issuer u) s) \<noteq> None \<or> (\<exists>err. oidc_NewProvider e (Spec_Issuer u) = Inl err)) \<longrightarrow>
      validatorCache (snd (snd (validateIssuer e u r s))) = validatorCache s)
   \<and> (fst (cache_Get e (Spec_Issuer u) s) = None \<and> oidc_NewProvider e (Spec_Issuer u) = Inl err \<longrightarrow>
        Status (fst (validateIssuer e u r s)) = ConditionFalse
        \<and> Reason (fst (validateIssuer e u r s)) = reasonUnreachable
        \<and> discovery_calls (snd (snd (validateIssuer e u r s))) = discovery_calls s @ [Spec_Issuer u]
        \<and> (validatorCache s' = validatorCache (snd (snd (validateIssuer e u r s)))
             \<and> clock e (ticks s) \<le> clock e (ticks s') \<longrightarrow>
             discovery_calls (snd (snd (validateIssuer e u r' s'))) = discovery_calls s' @ [Spec_Issuer u]))"
  by (auto simp: validateIssuer_def cache_Get_def Now_def Let_def checkAuthURL_def
           split: prod.splits option.splits sum.splits if_splits)

theorem failed_discovery_not_cached_witness:
  "Reason (fst (validateIssuer demo_env (demo_upstream\<lparr>Spec_Issuer := ''https://down.example.com''\<rparr>)
        (initialResult demo_upstream) demo_state)) = ''Unreachable''
   \<and> validatorCache (snd (snd (validateIssuer demo_env (demo_upstream\<lparr>Spec_Issuer := ''https://down.example.com''\<rparr>)
        (initialResult demo_upstream) demo_state))) = Map.empty
   \<and> discovery_calls (snd (snd (validateIssuer demo_env (demo_upstream\<lparr>Spec_Issuer := ''https://down.example.com''\<rparr>)
        (initialResult demo_upstream) (demo_state\<lparr>ticks := 7\<rparr>)))) = [''https://down.example.com'']"
proof -
  have 1: "fst (cache_Get demo_env ''https://down.example.com'' demo_state) = None"
    by (simp add: demo_defs cache_Get_def Now_def)
  have 2: "oidc_NewProvider demo_env ''https://down.example.com'' = Inl ''no such host''"
    by (simp add: demo_defs)
  show ?thesis
    using failed_discovery_not_cached [where e=demo_env
        and u="demo_upstream\<lparr>Spec_Issuer := ''https://down.example.com''\<rparr>"
        and r="initialResult demo_upstream" and r'="initialResult demo_upstream"
        and s=demo_state and s'="demo_state\<lparr>ticks := 7\<rparr>" and err="''no such host''"] 1 2
    by (simp add: demo_state_def demo_env_def const_defs)
qed

section \<open>The published list and the requeue\<close>

lemma Status_runValidators:
  "c \<in> set (fst (runValidators e u s)) \<Longrightarrow> Status c = ConditionTrue \<or> Status c = ConditionFalse"
  by (auto simp: runValidators_eq validateSecret_def validateIssuer_def checkAuthURL_def Let_def
           split: prod.splits option.splits sum.splits if_splits)

lemma fst_validateUpstream:
  "fst (validateUpstream e u s) =
     (if someFalse (fst (runValidators e u s), fst (snd (runValidators e u s))) then None
      else Some (fst (snd (runValidators e u s))))"
  by (simp add: validateUpstream_def runValidators_eq someFalse_def Let_def split: prod.splits)

lemma someFalse_runValidators:
  "someFalse (fst (runValidators e u s), r) \<longleftrightarrow> \<not> allTrue (fst (runValidators e u s), r)"
proof -
  have "ConditionTrue \<noteq> ConditionFalse" by (simp add: ConditionTrue_def ConditionFalse_def)
  then show ?thesis
    using Status_runValidators [of _ e u s]
    unfolding someFalse_def allTrue_def list_all_iff list_ex_iff fst_conv by metis
qed

lemma passConditions_someFalse:
  "x \<in> set (passConditions e us s) \<Longrightarrow> someFalse x \<longleftrightarrow> \<not> allTrue x"
proof (induction us arbitrary: s)
  case Nil
  then show ?case by simp
next
  case (Cons u us)
  then show ?case using someFalse_runValidators by auto
qed

lemma Sync_loop_eq:
  "fst (Sync_loop e us requeue vs s) = (requeue \<or> list_ex someFalse (passConditions e us s))
   \<and> fst (snd (Sync_loop e us requeue vs s))
       = vs @ map snd (filter allTrue (passConditions e us s))"
proof (induction us arbitrary: requeue vs s)
  case Nil
  then show ?case by simp
next
  case (Cons u us)
  obtain v s' where vu: "validateUpstream e u s = (v, s')" by (cases "validateUpstream e u s")
  have v: "v = (if someFalse (fst (runValidators e u s), fst (snd (runValidators e u s))) then None
      else Some (fst (snd (runValidators e u s))))"
    using fst_validateUpstream [of e u s] vu by simp
  show ?case
  proof (cases v)
    case None
    with v have sf: "someFalse (fst (runValidators e u s), fst (snd (runValidators e u s)))"
      by (simp split: if_splits)
    then have "\<not> allTrue (fst (runValidators e u s), fst (snd (runValidators e u s)))"
      using someFalse_runValidators by simp
    with sf vu None Cons.IH [of True vs s'] show ?thesis by simp
  next
    case (Some r)
    with v have sf: "\<not> someFalse (fst (runValidators e u s), fst (snd (runValidators e u s)))"
      and r: "r = fst (snd (runValidators e u s))"
      by (simp_all split: if_splits)
    then have "allTrue (fst (runValidators e u s), fst (snd (runValidators e u s)))"
      using someFalse_runValidators by simp
    with sf r vu Some Cons.IH [of requeue "vs @ [r]" s'] show ?thesis by simp
  qed
qed

lemma idp_out:
  "s\<lparr>idp_list := x, ticks := t\<rparr> = s\<lparr>ticks := t, idp_list := x\<rparr>"
  "s\<lparr>idp_list := x, validatorCache := c\<rparr> = s\<lparr>validatorCache := c, idp_list := x\<rparr>"
  "s\<lparr>idp_list := x, discovery_calls := d\<rparr> = s\<lparr>discovery_calls := d, idp_list := x\<rparr>"
  "s\<lparr>idp_list := x, store := st\<rparr> = s\<lparr>store := st, idp_list := x\<rparr>"
  "s\<lparr>idp_list := x, status_updates := w\<rparr> = s\<lparr>status_updates := w, idp_list := x\<rparr>"
  by simp_all

lemma Now_idp: "Now e (s\<lparr>idp_list := x\<rparr>) = (fst (Now e s), (snd (Now e s))\<lparr>idp_list := x\<rparr>)"
  by (simp add: Now_def)

lemma validateIssuer_idp:
  "validateIssuer e u r (s\<lparr>idp_list := x\<rparr>)
     = (fst (validateIssuer e u r s), fst (snd (validateIssuer e u r s)),
        (snd (snd (validateIssuer e u r s)))\<lparr>idp_list := x\<rparr>)"
  by (auto simp: validateIssuer_def cache_Get_def cache_Set_def Now_def Let_def idp_out
           split: prod.splits option.splits sum.splits)

lemma mergeConditions_idp:
  "mergeConditions e u cs upd (s\<lparr>idp_list := x\<rparr>)
     = (fst (mergeConditions e u cs upd s), (snd (mergeConditions e u cs upd s))\<lparr>idp_list := x\<rparr>)"
proof (induction cs arbitrary: upd s)
  case Nil
  then show ?case by simp
next
  case (Cons a cs)
  show ?case
    using Cons.IH [of _ "s\<lparr>ticks := Suc (ticks s)\<rparr>"] by (simp add: Now_def Let_def idp_out)
qed

lemma updateStatus_idp:
  "updateStatus e u cs (s\<lparr>idp_list := x\<rparr>) = (updateStatus e u cs s)\<lparr>idp_list := x\<rparr>"
  by (auto simp: updateStatus_def computeUpdated_def mergeConditions_idp Let_def idp_out
           split: prod.splits option.splits)

lemma runValidators_idp:
  "runValidators e u (s\<lparr>idp_list := x\<rparr>)
     = (fst (runValidators e u s), fst (snd (runValidators e u s)),
        (snd (snd (runValidators e u s)))\<lparr>idp_list := x\<rparr>)"
  by (simp add: runValidators_eq validateIssuer_idp)

lemma validateUpstream_idp:
  "validateUpstream e u (s\<lparr>idp_list := x\<rparr>)
     = (fst (validateUpstream e u s), (snd (validateUpstream e u s))\<lparr>idp_list := x\<rparr>)"
  by (simp add: validateUpstream_def runValidators_idp updateStatus_idp Let_def split: prod.splits)

lemma passConditions_idp:
  "passConditions e us (s\<lparr>idp_list := x\<rparr>) = passConditions e us s"
  by (induction us arbitrary: s) (simp_all add: runValidators_idp validateUpstream_idp)

text \<open>
  C1. When the listing succeeds, the list handed to \<^verbatim>\<open>SetIDPList\<close> consists of the
  results of exactly those listed resources whose computed conditions all have status
  True, in listing order, one per resource. It does not depend on the list published
  before, and it is empty when no resource qualifies.
\<close>

theorem published_list_is_valid_subset:
  "List_err e = None \<longrightarrow>
     idp_list (snd (Sync e s)) = map snd (filter allTrue (passConditions e (store s) s))
     \<and> idp_list (snd (Sync e (s\<lparr>idp_list := previous\<rparr>))) = idp_list (snd (Sync e s))
     \<and> (filter allTrue (passConditions e (store s) s) = [] \<longrightarrow> idp_list (snd (Sync e s)) = [])"
proof
  assume ok: "List_err e = None"
  have a: "idp_list (snd (Sync e s')) = map snd (filter allTrue (passConditions e (store s') s'))" for s'
    using ok Sync_loop_eq [of e "store s'" False "[]" s']
    by (simp add: Sync_def Let_def case_prod_beta)
  show "idp_list (snd (Sync e s)) = map snd (filter allTrue (passConditions e (store s) s))
     \<and> idp_list (snd (Sync e (s\<lparr>idp_list := previous\<rparr>))) = idp_list (snd (Sync e s))
     \<and> (filter allTrue (passConditions e (store s) s) = [] \<longrightarrow> idp_list (snd (Sync e s)) = [])"
    by (simp add: a passConditions_idp)
qed


theorem published_list_is_valid_subset_witness:
  "List_err demo_env = None
   \<and> idp_list (snd (Sync demo_env demo_mixed)) = [demo_result]
   \<and> idp_list (snd (Sync demo_env demo_failing)) = []"
proof -
  have 1: "List_err demo_env = None" by (simp add: demo_env_def)
  have 2: "map snd (filter allTrue (passConditions demo_env (store demo_mixed) demo_mixed)) = [demo_result]"
    by (simp add: demo_defs demo_mixed_def demo_nosecret_def demo_result_def allTrue_def
          eval_defs const_defs)
  have 3: "filter allTrue (passConditions demo_env (store demo_failing) demo_failing) = []"
    by (simp add: demo_defs demo_failing_def demo_nosecret_def allTrue_def eval_defs const_defs)
  show ?thesis
    using 1 2 3 published_list_is_valid_subset [of demo_env demo_mixed]
      published_list_is_valid_subset [of demo_env demo_failing]
    by simp
qed

text \<open>
  C2, as the code has it. When the listing succeeds, the pass returns
  \<^verbatim>\<open>ErrSyntheticRequeue\<close> if and only if some listed resource has a condition with status
  False, whatever its reason; it returns no error if and only if all conditions of all
  resources are True.
\<close>

theorem requeue_iff_failing_condition:
  "List_err e = None \<longrightarrow>
     (fst (Sync e s) = Some ErrSyntheticRequeue \<longleftrightarrow> list_ex someFalse (passConditions e (store s) s))
     \<and> (fst (Sync e s) = None \<longleftrightarrow> list_all allTrue (passConditions e (store s) s))"
proof
  assume ok: "List_err e = None"
  have "list_all allTrue (passConditions e (store s) s) \<longleftrightarrow> \<not> list_ex someFalse (passConditions e (store s) s)"
    using passConditions_someFalse [of _ e "store s" s] by (auto simp: list_all_iff list_ex_iff)
  then show "(fst (Sync e s) = Some ErrSyntheticRequeue \<longleftrightarrow> list_ex someFalse (passConditions e (store s) s))
     \<and> (fst (Sync e s) = None \<longleftrightarrow> list_all allTrue (passConditions e (store s) s))"
    using ok Sync_loop_eq [of e "store s" False "[]" s]
    by (simp add: Sync_def Let_def case_prod_beta)
qed

theorem requeue_iff_failing_condition_witness:
  "List_err demo_env = None
   \<and> fst (Sync demo_env demo_state) = None
   \<and> fst (Sync demo_env demo_failing) = Some ErrSyntheticRequeue"
proof -
  have 1: "List_err demo_env = None" by (simp add: demo_env_def)
  have 2: "list_all allTrue (passConditions demo_env (store demo_state) demo_state)"
    by (simp add: demo_defs allTrue_def eval_defs const_defs)
  have 3: "list_ex someFalse (passConditions demo_env (store demo_failing) demo_failing)"
    by (simp add: demo_defs demo_failing_def demo_nosecret_def someFalse_def eval_defs const_defs)
  show ?thesis
    using 1 2 3 requeue_iff_failing_condition [of demo_env demo_state]
      requeue_iff_failing_condition [of demo_env demo_failing]
    by simp
qed

text \<open>
  C2 as stated fails: a pass over one resource whose secret does not exist, with discovery
  reachable and sound, requests the requeue although the only failing condition has the
  permanent reason SecretNotFound.
\<close>

theorem requeue_on_permanent_failure:
  "fst (Sync demo_env demo_failing) = Some ErrSyntheticRequeue
   \<and> map (\<lambda>x. map (\<lambda>c. (Type c, Status c, Reason c)) (fst x))
        (passConditions demo_env (store demo_failing) demo_failing)
       = [[(''ClientCredentialsValid'', ''False'', ''SecretNotFound''),
           (''OIDCDiscoverySucceeded'', ''True'', ''Success'')]]"
  by (simp add: Sync_def demo_defs demo_failing_def demo_nosecret_def eval_defs const_defs)

section \<open>Garbage collection of the authenticator cache\<close>

lemma fold_upd_dom:
  "dom (fold (\<lambda>x m. m(f x \<mapsto> True)) xs m0) = dom m0 \<union> f ` set xs"
  by (induction xs arbitrary: m0) auto

lemma authenticatorSet_None:
  "authenticatorSet g ws js key = None \<longleftrightarrow> key \<notin> set (declared g ws js)"
proof -
  have "dom (authenticatorSet g ws js) = set (declared g ws js)"
    by (auto simp: authenticatorSet_def declared_def fold_upd_dom)
  then show ?thesis by (metis domIff)
qed

lemma loop_step:
  "cleaner_loop g aset (key # keys) s =
     (if own g key \<and> aset key = None
      then cleaner_loop g aset keys
             (s\<lparr>closed := (if closing (cache s) key then closed s @ [the (Get (cache s) key)]
                          else closed s),
                cache := Delete (cache s) key\<rparr>)
      else cleaner_loop g aset keys s)"
  by (auto simp: own_def closing_def Let_def split: option.splits)

lemma loop_cache:
  "cache (cleaner_loop g aset keys s)
     = filter (\<lambda>kv. \<not> (fst kv \<in> set keys \<and> own g (fst kv) \<and> aset (fst kv) = None)) (cache s)"
proof (induction keys arbitrary: s)
  case Nil
  then show ?case by simp
next
  case (Cons key keys)
  show ?case
    by (auto simp: loop_step Cons.IH Delete_def simp del: cleaner_loop.simps(2) intro!: filter_cong)
qed

lemma Get_Delete: "key' \<noteq> key \<Longrightarrow> Get (Delete c key) key' = Get c key'"
  by (induction c) (auto simp: Get_def Delete_def)

lemma loop_closed:
  "distinct keys \<Longrightarrow>
   closed (cleaner_loop g aset keys s)
     = closed s @ map (\<lambda>key. the (Get (cache s) key))
         (filter (\<lambda>key. own g key \<and> aset key = None \<and> closing (cache s) key) keys)"
proof (induction keys arbitrary: s)
  case Nil
  then show ?case by simp
next
  case (Cons key keys)
  from Cons.prems have d: "distinct keys" and n: "key \<notin> set keys" by simp_all
  have same: "k \<in> set keys \<Longrightarrow> Get (Delete (cache s) key) k = Get (cache s) k" for k
    using n Get_Delete [of k key "cache s"] by auto
  have f: "filter (\<lambda>k. own g k \<and> aset k = None \<and> closing (Delete (cache s) key) k) keys
         = filter (\<lambda>k. own g k \<and> aset k = None \<and> closing (cache s) k) keys"
    by (rule filter_cong) (auto simp: closing_def same)
  have m: "map (\<lambda>k. the (Get (Delete (cache s) key) k)) (filter P keys)
         = map (\<lambda>k. the (Get (cache s) k)) (filter P keys)" for P
    by (rule map_cong) (auto simp: same)
  show ?case
    by (simp add: loop_step Cons.IH [OF d] f m del: cleaner_loop.simps(2))
qed

lemma loop_nothing:
  "\<forall>key \<in> set keys. \<not> (own g key \<and> aset key = None) \<Longrightarrow> cleaner_loop g aset keys s = s"
proof (induction keys)
  case Nil
  then show ?case by simp
next
  case (Cons key keys)
  then show ?case by (auto simp: loop_step simp del: cleaner_loop.simps(2))
qed

text \<open>
  C8. When both listings succeed, a pass of the cache cleaner returns no error and leaves
  in the cache exactly the entries whose key is not stale, where a key is stale when it
  has this engine's API group and kind WebhookAuthenticator or JWTAuthenticator and is not
  implied by a declared resource: entries with a foreign group or kind stay, and nothing
  is added. The close hook is called once for each stale key whose value exposes it, and
  for nothing else (the keys are listed without repetition). A second pass over the same
  declarations changes nothing.
\<close>

theorem cleaner_removes_exactly_stale:
  "webhooks_List e = Inr ws \<and> jwtAuthenticators_List e = Inr js \<longrightarrow>
     fst (cleaner_Sync e s) = None
     \<and> cache (snd (cleaner_Sync e s))
         = filter (\<lambda>kv. \<not> stale (Group e) ws js (fst kv)) (cache s)
     \<and> closed (snd (cleaner_Sync e s))
         = closed s @ map (\<lambda>key. the (Get (cache s) key))
             (filter (\<lambda>key. stale (Group e) ws js key \<and> closing (cache s) key) (Keys (cache s)))
     \<and> distinct (Keys (cache s))
     \<and> cleaner_Sync e (snd (cleaner_Sync e s)) = (None, snd (cleaner_Sync e s))"
proof
  assume l: "webhooks_List e = Inr ws \<and> jwtAuthenticators_List e = Inr js"
  let ?aset = "authenticatorSet (Group e) ws js"
  let ?s' = "cleaner_loop (Group e) ?aset (Keys (cache s)) s"
  have S: "cleaner_Sync e t = (None, cleaner_loop (Group e) ?aset (Keys (cache t)) t)" for t
    using l by (simp add: cleaner_Sync_def)
  have st: "(own (Group e) k \<and> ?aset k = None) = stale (Group e) ws js k" for k
    by (simp add: stale_def authenticatorSet_None)
  have c: "cache ?s' = filter (\<lambda>kv. \<not> stale (Group e) ws js (fst kv)) (cache s)"
    unfolding loop_cache by (rule filter_cong) (auto simp: st Keys_def)
  have d: "distinct (Keys (cache s))" by (simp add: Keys_def)
  have cl: "closed ?s' = closed s @ map (\<lambda>key. the (Get (cache s) key))
             (filter (\<lambda>key. stale (Group e) ws js key \<and> closing (cache s) key) (Keys (cache s)))"
    unfolding loop_closed [OF d] using st by (metis (mono_tags, lifting))
  have "\<forall>key \<in> set (Keys (cache ?s')). \<not> (own (Group e) key \<and> ?aset key = None)"
    unfolding c st by (auto simp: Keys_def)
  then have again: "cleaner_loop (Group e) ?aset (Keys (cache ?s')) ?s' = ?s'"
    by (rule loop_nothing)
  show "fst (cleaner_Sync e s) = None
     \<and> cache (snd (cleaner_Sync e s))
         = filter (\<lambda>kv. \<not> stale (Group e) ws js (fst kv)) (cache s)
     \<and> closed (snd (cleaner_Sync e s))
         = closed s @ map (\<lambda>key. the (Get (cache s) key))
             (filter (\<lambda>key. stale (Group e) ws js key \<and> closing (cache s) key) (Keys (cache s)))
     \<and> distinct (Keys (cache s))
     \<and> cleaner_Sync e (snd (cleaner_Sync e s)) = (None, snd (cleaner_Sync e s))"
    using c cl d again by (simp add: S)
qed


theorem cleaner_removes_exactly_stale_witness:
  "webhooks_List demo_cleaner_env = Inr [\<lparr>auth_Namespace = ''ns'', auth_Name = ''a''\<rparr>]
   \<and> jwtAuthenticators_List demo_cleaner_env = Inr [\<lparr>auth_Namespace = ''ns'', auth_Name = ''b''\<rparr>]
   \<and> map (value_id \<circ> snd) (cache (snd (cleaner_Sync demo_cleaner_env demo_cleaner_state))) = [1, 2, 4]
   \<and> closed (snd (cleaner_Sync demo_cleaner_env demo_cleaner_state))
       = [\<lparr>value_id = 3, has_Close = True\<rparr>]
   \<and> cleaner_Sync demo_cleaner_env (snd (cleaner_Sync demo_cleaner_env demo_cleaner_state))
       = (None, snd (cleaner_Sync demo_cleaner_env demo_cleaner_state))"
proof -
  let ?ws = "[\<lparr>auth_Namespace = ''ns'', auth_Name = ''a''\<rparr>]"
  let ?js = "[\<lparr>auth_Namespace = ''ns'', auth_Name = ''b''\<rparr>]"
  have 1: "webhooks_List demo_cleaner_env = Inr ?ws \<and> jwtAuthenticators_List demo_cleaner_env = Inr ?js"
    by (simp add: demo_cleaner_env_def)
  have 2: "map (value_id \<circ> snd)
             (filter (\<lambda>kv. \<not> stale (Group demo_cleaner_env) ?ws ?js (fst kv)) (cache demo_cleaner_state))
           = [1, 2, 4]"
    by (simp add: demo_cleaner_env_def demo_cleaner_state_def demo_group_def stale_def own_def
          declared_def webhookKey_def jwtKey_def)
  have 3: "map (\<lambda>key. the (Get (cache demo_cleaner_state) key))
             (filter (\<lambda>key. stale (Group demo_cleaner_env) ?ws ?js key \<and> closing (cache demo_cleaner_state) key)
                (Keys (cache demo_cleaner_state)))
           = [\<lparr>value_id = 3, has_Close = True\<rparr>]"
    by (simp add: demo_cleaner_env_def demo_cleaner_state_def demo_group_def stale_def own_def
          declared_def webhookKey_def jwtKey_def Keys_def Get_def closing_def)
  have 4: "closed demo_cleaner_state = []"
    by (simp add: demo_cleaner_state_def)
  show ?thesis
    using 1 2 3 4 cleaner_removes_exactly_stale [of demo_cleaner_env ?ws ?js demo_cleaner_state]
    by simp
qed

end
